theory Spec2Isabelle
  imports Complex_Main
begin

section \<open>Values\<close>

text \<open>
  Money is Python's \<^verbatim>\<open>Decimal\<close>.  The only arithmetic the views perform on it is
  addition, subtraction, multiplication and a division by \<^verbatim>\<open>100\<close>; on values within the
  declared field widths these are exact in the default 28-digit context, so a decimal is
  modelled as an exact rational.  The quantisation a database applies when a
  \<^verbatim>\<open>DecimalField\<close> is stored, and the \<^verbatim>\<open>float(...)\<close> rendering of a response, belong to the
  persistence and serialisation layers and are outside the model.

  A date is (year, month, day); a datetime is a date with the seconds since midnight.
\<close>

type_synonym decimal = rat

type_synonym date = "nat \<times> nat \<times> nat"

type_synonym datetime = "date \<times> nat"

fun date_le :: "date \<Rightarrow> date \<Rightarrow> bool" where
  "date_le (y1, m1, d1) (y2, m2, d2) =
     (y1 < y2 \<or> (y1 = y2 \<and> (m1 < m2 \<or> (m1 = m2 \<and> d1 \<le> d2))))"

text \<open>\<^verbatim>\<open>today.replace(day=1)\<close>\<close>

fun replace_day1 :: "date \<Rightarrow> date" where
  "replace_day1 (y, m, d) = (y, m, 1)"

text \<open>\<^verbatim>\<open>str(n)\<close> of a non-negative integer, and \<^verbatim>\<open>strftime('%Y%m%d')\<close>.\<close>

definition digit_char :: "nat \<Rightarrow> char" where
  "digit_char d = char_of (48 + d)"

function str_nat :: "nat \<Rightarrow> string" where
  "str_nat n = (if n < 10 then [digit_char n] else str_nat (n div 10) @ [digit_char (n mod 10)])"
  by pat_completeness auto
termination
  by (relation "measure id") auto

declare str_nat.simps [simp del]

definition zero_pad :: "nat \<Rightarrow> string \<Rightarrow> string" where
  "zero_pad w s = replicate (w - length s) (CHR ''0'') @ s"

fun strftime_Ymd :: "date \<Rightarrow> string" where
  "strftime_Ymd (y, m, d) = zero_pad 4 (str_nat y) @ zero_pad 2 (str_nat m) @ zero_pad 2 (str_nat d)"

declare strftime_Ymd.simps [simp del]

text \<open>
  A raw JSON value of a request body, and Python's truth value of it
  (\<^verbatim>\<open>if issue_receipt:\<close>).
\<close>

datatype json = JNull | JBool bool | JInt int | JStr string

fun truthy :: "json \<Rightarrow> bool" where
  "truthy JNull = False"
| "truthy (JBool b) = b"
| "truthy (JInt n) = (n \<noteq> 0)"
| "truthy (JStr s) = (s \<noteq> [])"

section \<open>Users and permissions (core/models.py, core/permissions.py)\<close>

text \<open>
  An authenticated user.  \<^verbatim>\<open>role\<close> holds the permission codes of the user's role
  (\<^verbatim>\<open>None\<close> when the user has no role), \<^verbatim>\<open>department\<close> the code of the user's department.
\<close>

record user =
  u_id :: nat
  is_superuser :: bool
  is_manager :: bool
  role :: "string list option"
  department :: "string option"

definition has_perm_code :: "user \<Rightarrow> string \<Rightarrow> bool" where
  "has_perm_code u code = (case role u of None \<Rightarrow> False | Some perms \<Rightarrow> code \<in> set perms)"

text \<open>
  \<^verbatim>\<open>HasPermission.has_permission\<close> for an authenticated user; the second argument is the
  view's \<^verbatim>\<open>permission_code\<close>.  The function views carry none, so the class lets every
  authenticated user through and the check in the view's body decides.
\<close>

definition has_permission :: "user \<Rightarrow> string option \<Rightarrow> bool" where
  "has_permission u code =
     (if is_superuser u then True
      else case code of None \<Rightarrow> True | Some c \<Rightarrow> has_perm_code u c)"

text \<open>The responses other than success.\<close>

datatype http_error =
    Http400 string
  | Http400_invalid
  | Http403
  | Http404
  | Http500

text \<open>
  \<^verbatim>\<open>Http400 d\<close> is \<^verbatim>\<open>Response({'detail': d}, status=400)\<close>, \<^verbatim>\<open>Http400_invalid\<close> a
  serializer's error dictionary with status 400, \<^verbatim>\<open>Http500\<close> an exception no view catches.
  The names the specification gives to the failures:
\<close>

abbreviation PermissionDeniedError :: http_error where
  "PermissionDeniedError \<equiv> Http403"

abbreviation NotFoundError :: http_error where
  "NotFoundError \<equiv> Http404"

abbreviation InvalidStateError :: http_error where
  "InvalidStateError \<equiv> Http400 ''Booking not in confirmable state''"

abbreviation NoFolioError :: http_error where
  "NoFolioError \<equiv> Http400 ''No folio''"

abbreviation AlreadyClosedError :: http_error where
  "AlreadyClosedError \<equiv> Http400 ''Folio already closed''"

abbreviation FolioClosedError :: http_error where
  "FolioClosedError \<equiv> Http400 ''Cannot post to closed folio''"

section \<open>Tables (hotel/models.py, finance/models.py, pos/models.py)\<close>

text \<open>
  Each model is a record of the fields the views read or write, each table a list of
  rows in insertion order.  Foreign keys are the primary key of the row referred to.
\<close>

datatype room_status = Vacant | Occupied | Reserved | Maintenance

record room =
  r_id :: nat
  r_number :: string
  r_status :: room_status

datatype booking_status = Pending | Confirmed | CheckedIn | CheckedOut | Cancelled

record booking =
  b_id :: nat
  b_guest :: nat
  b_room :: nat
  b_check_in_date :: date
  b_check_out_date :: date
  b_status :: booking_status
  b_created_by :: nat

datatype folio_status = FOpen | FClosed

record folio =
  f_id :: nat
  f_booking :: nat
  f_is_primary :: bool
  f_status :: folio_status
  f_closed_at :: "datetime option"

record folio_charge =
  c_id :: nat
  c_folio :: nat
  c_sector :: string
  c_description :: string
  c_quantity :: decimal
  c_unit_price :: decimal
  c_amount_before_tax :: decimal
  c_tax_amount :: decimal
  c_amount_after_tax :: decimal
  c_posted_by :: nat
  c_posted_at :: datetime
  c_pos_order_id :: "nat option"
  c_room_night_date :: "date option"

datatype payment_method = Cash | Mpesa | AirtelMoney | TigoPesa | BankTransfer | Card

record folio_payment =
  p_id :: nat
  p_folio :: nat
  p_amount :: decimal
  p_method :: payment_method
  p_reference :: string
  p_confirmed_by :: nat
  p_confirmed_at :: datetime
  p_receipt_issued :: bool

record receipt =
  rc_id :: nat
  rc_folio_payment :: "nat option"
  rc_receipt_number :: string
  rc_amount :: decimal
  rc_issued_at :: datetime
  rc_issued_by :: nat

datatype tax_type = Inclusive | Exclusive

record tax =
  t_name :: string
  t_code :: string
  t_percentage :: decimal
  t_tax_type :: tax_type
  t_sectors :: "string list"
  t_is_active :: bool

record expense =
  e_sector :: string
  e_amount :: decimal
  e_created_at :: datetime

record salary =
  s_staff :: nat
  s_amount :: decimal
  s_month :: date

record menu_item =
  mi_id :: nat
  mi_name :: string
  mi_price :: decimal

datatype order_status = New | Preparing | Ready | Served | OrderCancelled

datatype payment_intent = PayNow | PostToRoom

record pos_order =
  o_id :: nat
  o_sector :: string
  o_status :: order_status
  o_payment_intent :: payment_intent
  o_folio :: "nat option"
  o_table_or_room :: string
  o_created_by :: nat
  o_completed_at :: "datetime option"
  o_total_before_tax :: decimal
  o_total_tax :: decimal
  o_total_amount :: decimal

record order_item =
  oi_id :: nat
  oi_order :: nat
  oi_menu_item :: nat
  oi_quantity :: nat
  oi_unit_price :: decimal
  oi_line_total :: decimal
  oi_notes :: string

record db =
  rooms :: "room list"
  bookings :: "booking list"
  folios :: "folio list"
  charges :: "folio_charge list"
  payments :: "folio_payment list"
  receipts :: "receipt list"
  taxes :: "tax list"
  expenses :: "expense list"
  salaries :: "salary list"
  menu_items :: "menu_item list"
  orders :: "pos_order list"
  order_items :: "order_item list"

text \<open>
  The primary key of a new row is greater than every key of the table;
  \<^verbatim>\<open>objects.get(pk=...)\<close> and \<^verbatim>\<open>filter(pk=...).first()\<close> find the row with a key;
  \<^verbatim>\<open>save(update_fields=[...])\<close> rewrites the rows with the instance's key.
\<close>

definition next_id :: "nat list \<Rightarrow> nat" where
  "next_id ids = Suc (fold max ids 0)"

definition get_pk :: "('a \<Rightarrow> nat) \<Rightarrow> nat \<Rightarrow> 'a list \<Rightarrow> 'a option" where
  "get_pk key pk rows = find (\<lambda>x. key x = pk) rows"

definition save_pk :: "('a \<Rightarrow> nat) \<Rightarrow> nat \<Rightarrow> ('a \<Rightarrow> 'a) \<Rightarrow> 'a list \<Rightarrow> 'a list" where
  "save_pk key pk upd rows = map (\<lambda>x. if key x = pk then upd x else x) rows"

section \<open>Tax engine (hotel/views.py, pos/views.py, pos/serializers.py)\<close>

text \<open>
  The three loops over \<^verbatim>\<open>Tax.objects.filter(is_active=True)\<close>, each with its accumulator:
  \<^verbatim>\<open>apply_taxes\<close> of the hotel views, \<^verbatim>\<open>_apply_taxes\<close> of the POS views, and the loop
  inside \<^verbatim>\<open>OrderCreateSerializer.create\<close>.  The first argument of each loop is what is
  left of the queryset.
\<close>

fun apply_taxes_loop :: "tax list \<Rightarrow> decimal \<Rightarrow> string \<Rightarrow> decimal \<Rightarrow> decimal" where
  "apply_taxes_loop [] amount_before_tax sector tax_amount = tax_amount"
| "apply_taxes_loop (t # ts) amount_before_tax sector tax_amount =
     (if t_sectors t \<noteq> [] \<and> sector \<notin> set (t_sectors t)
      then apply_taxes_loop ts amount_before_tax sector tax_amount
      else if t_tax_type t = Exclusive
      then apply_taxes_loop ts amount_before_tax sector
             (tax_amount + amount_before_tax * (t_percentage t / 100))
      else apply_taxes_loop ts amount_before_tax sector tax_amount)"

definition apply_taxes :: "tax list \<Rightarrow> decimal \<Rightarrow> string \<Rightarrow> decimal \<times> decimal" where
  "apply_taxes tax_table amount_before_tax sector =
     (let taxes = filter t_is_active tax_table;
          tax_amount = apply_taxes_loop taxes amount_before_tax sector 0;
          amount_after_tax = amount_before_tax + tax_amount
      in (tax_amount, amount_after_tax))"

fun pos_apply_taxes_loop :: "tax list \<Rightarrow> decimal \<Rightarrow> string \<Rightarrow> decimal \<Rightarrow> decimal" where
  "pos_apply_taxes_loop [] amount sector tax_total = tax_total"
| "pos_apply_taxes_loop (t # ts) amount sector tax_total =
     (if t_sectors t \<noteq> [] \<and> sector \<notin> set (t_sectors t)
      then pos_apply_taxes_loop ts amount sector tax_total
      else if t_tax_type t = Exclusive
      then pos_apply_taxes_loop ts amount sector (tax_total + amount * (t_percentage t / 100))
      else pos_apply_taxes_loop ts amount sector tax_total)"

definition pos_apply_taxes :: "tax list \<Rightarrow> decimal \<Rightarrow> string \<Rightarrow> decimal" where
  "pos_apply_taxes tax_table amount sector =
     pos_apply_taxes_loop (filter t_is_active tax_table) amount sector 0"

fun create_tax_loop :: "tax list \<Rightarrow> decimal \<Rightarrow> string \<Rightarrow> decimal \<Rightarrow> decimal" where
  "create_tax_loop [] total_before sector tax_total = tax_total"
| "create_tax_loop (t # ts) total_before sector tax_total =
     (if t_sectors t \<noteq> [] \<and> sector \<notin> set (t_sectors t)
      then create_tax_loop ts total_before sector tax_total
      else if t_tax_type t = Exclusive
      then create_tax_loop ts total_before sector (tax_total + total_before * (t_percentage t / 100))
      else create_tax_loop ts total_before sector tax_total)"

section \<open>Bookings (hotel/views.py)\<close>

text \<open>
  A view takes the authenticated user, its arguments and the database, and returns its
  response with the database it leaves.  A block under \<^verbatim>\<open>transaction.atomic()\<close> that
  raises leaves the database as it was.
\<close>

record booking_create =
  bc_guest :: nat
  bc_room :: nat
  bc_check_in_date :: date
  bc_check_out_date :: date

text \<open>
  \<^verbatim>\<open>BookingCreate\<close>: the serializer accepts a room that exists; the status is the model's
  default.  No folio is created.
\<close>

definition BookingCreate :: "user \<Rightarrow> booking_create \<Rightarrow> db \<Rightarrow> (http_error + booking) \<times> db" where
  "BookingCreate u data st =
     (if \<not> has_permission u (Some ''create_booking'') then (Inl Http403, st)
      else case get_pk r_id (bc_room data) (rooms st) of
        None \<Rightarrow> (Inl Http400_invalid, st)
      | Some room \<Rightarrow>
          (let booking = \<lparr>b_id = next_id (map b_id (bookings st)),
                          b_guest = bc_guest data,
                          b_room = bc_room data,
                          b_check_in_date = bc_check_in_date data,
                          b_check_out_date = bc_check_out_date data,
                          b_status = Pending,
                          b_created_by = u_id u\<rparr>
           in (Inr booking, st\<lparr>bookings := bookings st @ [booking]\<rparr>)))"

text \<open>
  \<^verbatim>\<open>BookingDetail\<close> is a \<^verbatim>\<open>RetrieveUpdateAPIView\<close> over \<^verbatim>\<open>BookingSerializer\<close>, whose
  \<^verbatim>\<open>room\<close> and \<^verbatim>\<open>status\<close> are writable.  A partial update (PATCH) sets the fields the
  request gives.
\<close>

record booking_patch =
  bp_room :: "nat option"
  bp_status :: "booking_status option"

definition BookingDetail_update :: "user \<Rightarrow> nat \<Rightarrow> booking_patch \<Rightarrow> db \<Rightarrow> (http_error + booking) \<times> db" where
  "BookingDetail_update u pk data st =
     (if \<not> has_permission u (Some ''view_bookings'') then (Inl Http403, st)
      else case get_pk b_id pk (bookings st) of
        None \<Rightarrow> (Inl Http404, st)
      | Some booking \<Rightarrow>
          if (case bp_room data of None \<Rightarrow> False | Some r \<Rightarrow> get_pk r_id r (rooms st) = None)
          then (Inl Http400_invalid, st)
          else
            (let upd = (\<lambda>b. b\<lparr>b_room := (case bp_room data of None \<Rightarrow> b_room b | Some r \<Rightarrow> r),
                               b_status := (case bp_status data of None \<Rightarrow> b_status b | Some s \<Rightarrow> s)\<rparr>)
             in (Inr (upd booking), st\<lparr>bookings := save_pk b_id pk upd (bookings st)\<rparr>)))"

text \<open>
  \<^verbatim>\<open>Booking.folio\<close>: the first primary folio of the booking in the model's ordering
  \<^verbatim>\<open>-created_at\<close>, that is the one created last.
\<close>

definition Booking_folio :: "db \<Rightarrow> booking \<Rightarrow> folio option" where
  "Booking_folio st booking =
     (case rev (filter (\<lambda>f. f_booking f = b_id booking \<and> f_is_primary f) (folios st)) of
        [] \<Rightarrow> None
      | f # _ \<Rightarrow> Some f)"

definition check_in :: "user \<Rightarrow> nat \<Rightarrow> db \<Rightarrow> (http_error + folio) \<times> db" where
  "check_in u pk st =
     (if \<not> has_perm_code u ''create_booking'' \<and> \<not> is_superuser u then (Inl Http403, st)
      else case get_pk b_id pk (bookings st) of
        None \<Rightarrow> (Inl Http404, st)
      | Some booking \<Rightarrow>
          if b_status booking \<noteq> Confirmed \<and> b_status booking \<noteq> Pending
          then (Inl (Http400 ''Booking not in confirmable state''), st)
          else
            (let folio = \<lparr>f_id = next_id (map f_id (folios st)),
                          f_booking = b_id booking,
                          f_is_primary = True,
                          f_status = FOpen,
                          f_closed_at = None\<rparr>
             in case get_pk r_id (b_room booking) (rooms st) of
                  None \<Rightarrow> (Inl Http500, st)
                | Some room \<Rightarrow>
                    (Inr folio,
                     st\<lparr>folios := folios st @ [folio],
                        rooms := save_pk r_id (r_id room) (\<lambda>r. r\<lparr>r_status := Occupied\<rparr>) (rooms st),
                        bookings := save_pk b_id (b_id booking) (\<lambda>b. b\<lparr>b_status := CheckedIn\<rparr>)
                                      (bookings st)\<rparr>)))"

section \<open>Folio ledger (hotel/models.py, hotel/views.py)\<close>

definition Folio_total_charges :: "db \<Rightarrow> folio \<Rightarrow> decimal" where
  "Folio_total_charges st folio =
     sum_list (map c_amount_after_tax (filter (\<lambda>c. c_folio c = f_id folio) (charges st)))"

definition Folio_total_payments :: "db \<Rightarrow> folio \<Rightarrow> decimal" where
  "Folio_total_payments st folio =
     sum_list (map p_amount (filter (\<lambda>p. p_folio p = f_id folio) (payments st)))"

definition Folio_balance :: "db \<Rightarrow> folio \<Rightarrow> decimal" where
  "Folio_balance st folio = Folio_total_charges st folio - Folio_total_payments st folio"

definition can_post_charges :: "folio \<Rightarrow> bool" where
  "can_post_charges folio = (f_status folio = FOpen)"

record invoice =
  total_charges :: decimal
  total_payments :: decimal
  balance :: decimal

definition check_out :: "user \<Rightarrow> nat \<Rightarrow> datetime \<Rightarrow> db \<Rightarrow> (http_error + folio \<times> invoice) \<times> db" where
  "check_out u pk now st =
     (if \<not> has_perm_code u ''check_out_booking'' \<and> \<not> is_superuser u then (Inl Http403, st)
      else case get_pk b_id pk (bookings st) of
        None \<Rightarrow> (Inl Http404, st)
      | Some booking \<Rightarrow>
          (case Booking_folio st booking of
             None \<Rightarrow> (Inl (Http400 ''No folio''), st)
           | Some folio \<Rightarrow>
               if f_status folio = FClosed then (Inl (Http400 ''Folio already closed''), st)
               else
                 (let closed = (\<lambda>f. f\<lparr>f_status := FClosed, f_closed_at := Some now\<rparr>)
                  in case get_pk r_id (b_room booking) (rooms st) of
                       None \<Rightarrow> (Inl Http500, st)
                     | Some room \<Rightarrow>
                         (let st' = st\<lparr>folios := save_pk f_id (f_id folio) closed (folios st),
                                       rooms := save_pk r_id (r_id room) (\<lambda>r. r\<lparr>r_status := Vacant\<rparr>)
                                                  (rooms st),
                                       bookings := save_pk b_id (b_id booking)
                                                     (\<lambda>b. b\<lparr>b_status := CheckedOut\<rparr>) (bookings st)\<rparr>
                          in (Inr (closed folio,
                                   \<lparr>total_charges = Folio_total_charges st' (closed folio),
                                    total_payments = Folio_total_payments st' (closed folio),
                                    balance = Folio_balance st' (closed folio)\<rparr>),
                              st')))))"

text \<open>
  The validated data of \<^verbatim>\<open>FolioChargePostSerializer\<close>.  \<^verbatim>\<open>quantity\<close> and \<^verbatim>\<open>unit_price\<close>
  have model defaults, so the serializer does not require them and leaves them out of
  \<^verbatim>\<open>validated_data\<close> when the request does; the view then fails on the missing key.
\<close>

record charge_post =
  cp_folio :: nat
  cp_sector :: string
  cp_description :: string
  cp_quantity :: "decimal option"
  cp_unit_price :: "decimal option"
  cp_room_night_date :: "date option"

definition SECTOR_CHOICES :: "string list" where
  "SECTOR_CHOICES = [''rooms'', ''restaurant'', ''bar'', ''housekeeping'', ''activities'']"

definition post_charge :: "user \<Rightarrow> charge_post \<Rightarrow> datetime \<Rightarrow> db \<Rightarrow> (http_error + folio_charge) \<times> db" where
  "post_charge u data now st =
     (if \<not> has_perm_code u ''post_charge'' \<and> \<not> is_superuser u then (Inl Http403, st)
      else case get_pk f_id (cp_folio data) (folios st) of
        None \<Rightarrow> (Inl Http400_invalid, st)
      | Some folio \<Rightarrow>
          if cp_sector data \<notin> set SECTOR_CHOICES then (Inl Http400_invalid, st)
          else if \<not> can_post_charges folio
          then (Inl (Http400 ''Cannot post to closed folio''), st)
          else
            (case (cp_quantity data, cp_unit_price data) of
               (Some quantity, Some unit_price) \<Rightarrow>
                 (let amount_before = quantity * unit_price;
                      (tax_amount, amount_after) = apply_taxes (taxes st) amount_before (cp_sector data);
                      charge = \<lparr>c_id = next_id (map c_id (charges st)),
                                c_folio = f_id folio,
                                c_sector = cp_sector data,
                                c_description = cp_description data,
                                c_quantity = quantity,
                                c_unit_price = unit_price,
                                c_amount_before_tax = amount_before,
                                c_tax_amount = tax_amount,
                                c_amount_after_tax = amount_after,
                                c_posted_by = u_id u,
                                c_posted_at = now,
                                c_pos_order_id = None,
                                c_room_night_date = cp_room_night_date data\<rparr>
                  in (Inr charge, st\<lparr>charges := charges st @ [charge]\<rparr>))
             | _ \<Rightarrow> (Inl Http500, st)))"

text \<open>
  The request of \<^verbatim>\<open>post_payment\<close>: the serializer's fields and the raw
  \<^verbatim>\<open>issue_receipt\<close> entry of the request body.
\<close>

record payment_post =
  pp_folio :: nat
  pp_amount :: "decimal option"
  pp_method :: payment_method
  pp_reference :: "string option"
  pp_issue_receipt :: "json option"

text \<open>\<^verbatim>\<open>request.data.get('issue_receipt', True)\<close>\<close>

definition issue_receipt :: "payment_post \<Rightarrow> json" where
  "issue_receipt data = (case pp_issue_receipt data of None \<Rightarrow> JBool True | Some v \<Rightarrow> v)"

definition receipt_number :: "nat \<Rightarrow> datetime \<Rightarrow> string" where
  "receipt_number payment_id now = ''RCP-'' @ str_nat payment_id @ ''-'' @ strftime_Ymd (fst now)"

text \<open>
  \<^verbatim>\<open>Receipt.receipt_number\<close> is unique and \<^verbatim>\<open>Receipt.folio_payment\<close> is one-to-one: the
  database refuses a second row with either.
\<close>

definition receipt_clash :: "db \<Rightarrow> nat \<Rightarrow> string \<Rightarrow> bool" where
  "receipt_clash st payment_id number =
     list_ex (\<lambda>r. rc_receipt_number r = number \<or> rc_folio_payment r = Some payment_id) (receipts st)"

text \<open>
  \<^verbatim>\<open>post_payment\<close> runs in no transaction: when the receipt cannot be created, the payment
  stays.
\<close>

definition post_payment :: "user \<Rightarrow> payment_post \<Rightarrow> datetime \<Rightarrow> db \<Rightarrow> (http_error + folio_payment) \<times> db" where
  "post_payment u data now st =
     (if \<not> has_perm_code u ''post_payment'' \<and> \<not> is_superuser u then (Inl Http403, st)
      else case get_pk f_id (pp_folio data) (folios st) of
        None \<Rightarrow> (Inl Http400_invalid, st)
      | Some folio \<Rightarrow>
          (case pp_amount data of
             None \<Rightarrow> (Inl Http500, st)
           | Some amount \<Rightarrow>
               (let payment = \<lparr>p_id = next_id (map p_id (payments st)),
                               p_folio = f_id folio,
                               p_amount = amount,
                               p_method = pp_method data,
                               p_reference = (case pp_reference data of None \<Rightarrow> [] | Some s \<Rightarrow> s),
                               p_confirmed_by = u_id u,
                               p_confirmed_at = now,
                               p_receipt_issued = False\<rparr>;
                    st1 = st\<lparr>payments := payments st @ [payment]\<rparr>
                in if truthy (issue_receipt data)
                   then
                     (let number = receipt_number (p_id payment) now
                      in if receipt_clash st1 (p_id payment) number then (Inl Http500, st1)
                         else
                           (let r = \<lparr>rc_id = next_id (map rc_id (receipts st1)),
                                     rc_folio_payment = Some (p_id payment),
                                     rc_receipt_number = number,
                                     rc_amount = p_amount payment,
                                     rc_issued_at = now,
                                     rc_issued_by = u_id u\<rparr>
                            in (Inr (payment\<lparr>p_receipt_issued := True\<rparr>),
                                st1\<lparr>receipts := receipts st1 @ [r],
                                    payments := save_pk p_id (p_id payment)
                                                  (\<lambda>p. p\<lparr>p_receipt_issued := True\<rparr>) (payments st1)\<rparr>)))
                   else (Inr payment, st1))))"

section \<open>POS orders (pos/serializers.py, pos/views.py)\<close>

text \<open>
  The validated data of \<^verbatim>\<open>OrderCreateSerializer\<close>.  A row of \<^verbatim>\<open>items\<close> names a menu item
  and may give a quantity (default 1; \<^verbatim>\<open>OrderItem.quantity\<close> is a
  \<^verbatim>\<open>PositiveIntegerField\<close>) and notes.
\<close>

record order_row =
  it_menu_item_id :: nat
  it_quantity :: "nat option"
  it_notes :: "string option"

record order_post =
  op_sector :: string
  op_payment_intent :: "payment_intent option"
  op_folio_id :: "nat option"
  op_table_or_room :: "string option"
  op_items :: "order_row list"

text \<open>
  The loop over \<^verbatim>\<open>items_data\<close>: the accumulators are \<^verbatim>\<open>total_before\<close> and the
  \<^verbatim>\<open>OrderItem\<close> table.  \<^verbatim>\<open>MenuItem.objects.get\<close> raises for an unknown item.
\<close>

fun create_items_loop ::
  "menu_item list \<Rightarrow> nat \<Rightarrow> order_row list \<Rightarrow> decimal \<Rightarrow> order_item list \<Rightarrow> (decimal \<times> order_item list) option"
where
  "create_items_loop menu order_id [] total_before table = Some (total_before, table)"
| "create_items_loop menu order_id (row # items_data) total_before table =
     (case get_pk mi_id (it_menu_item_id row) menu of
        None \<Rightarrow> None
      | Some mi \<Rightarrow>
          (let qty = (case it_quantity row of None \<Rightarrow> 1 | Some q \<Rightarrow> q);
               unit = mi_price mi;
               line_total = unit * of_nat qty;
               item = \<lparr>oi_id = next_id (map oi_id table),
                       oi_order = order_id,
                       oi_menu_item = mi_id mi,
                       oi_quantity = qty,
                       oi_unit_price = unit,
                       oi_line_total = line_total,
                       oi_notes = (case it_notes row of None \<Rightarrow> [] | Some s \<Rightarrow> s)\<rparr>
           in create_items_loop menu order_id items_data (total_before + line_total) (table @ [item])))"

text \<open>
  \<^verbatim>\<open>OrderCreateSerializer.create\<close>; \<^verbatim>\<open>None\<close> when it raises.  The order row is written
  once here, with the totals of the final \<^verbatim>\<open>order.save()\<close>.
\<close>

definition OrderCreateSerializer_create :: "user \<Rightarrow> order_post \<Rightarrow> db \<Rightarrow> (pos_order \<times> db) option" where
  "OrderCreateSerializer_create u validated_data st =
     (let payment_intent = (case op_payment_intent validated_data of None \<Rightarrow> PayNow | Some i \<Rightarrow> i);
          folio = (case op_folio_id validated_data of
                     None \<Rightarrow> None
                   | Some folio_id \<Rightarrow>
                       if folio_id \<noteq> 0 \<and> payment_intent = PostToRoom
                       then get_pk f_id folio_id (folios st) else None);
          order = \<lparr>o_id = next_id (map o_id (orders st)),
                   o_sector = op_sector validated_data,
                   o_status = New,
                   o_payment_intent = payment_intent,
                   o_folio = map_option f_id folio,
                   o_table_or_room = (case op_table_or_room validated_data of None \<Rightarrow> [] | Some s \<Rightarrow> s),
                   o_created_by = u_id u,
                   o_completed_at = None,
                   o_total_before_tax = 0,
                   o_total_tax = 0,
                   o_total_amount = 0\<rparr>
      in case create_items_loop (menu_items st) (o_id order) (op_items validated_data) 0 (order_items st) of
           None \<Rightarrow> None
         | Some (total_before, table) \<Rightarrow>
             (let tax_total = create_tax_loop (filter t_is_active (taxes st)) total_before (o_sector order) 0;
                  order' = order\<lparr>o_total_before_tax := total_before,
                                 o_total_tax := tax_total,
                                 o_total_amount := total_before + tax_total\<rparr>
              in Some (order', st\<lparr>orders := orders st @ [order'], order_items := table\<rparr>)))"

definition get_sector_display :: "string \<Rightarrow> string" where
  "get_sector_display sector =
     (if sector = ''restaurant'' then ''Restaurant''
      else if sector = ''bar'' then ''Bar'' else sector)"

text \<open>
  \<^verbatim>\<open>OrderListCreate.create\<close>.  Everything after validation runs under
  \<^verbatim>\<open>transaction.atomic()\<close>.
\<close>

definition OrderListCreate_create :: "user \<Rightarrow> order_post \<Rightarrow> datetime \<Rightarrow> db \<Rightarrow> (http_error + pos_order) \<times> db" where
  "OrderListCreate_create u data now st =
     (if \<not> has_permission u (Some ''create_pos_order'') then (Inl Http403, st)
      else if op_sector data \<notin> set [''restaurant'', ''bar''] then (Inl Http400_invalid, st)
      else case OrderCreateSerializer_create u data st of
        None \<Rightarrow> (Inl Http500, st)
      | Some (order, st1) \<Rightarrow>
          (let st2 = (case o_folio order of
                        None \<Rightarrow> st1
                      | Some folio_id \<Rightarrow>
                          if o_payment_intent order = PostToRoom
                          then st1\<lparr>charges := charges st1 @
                                 [\<lparr>c_id = next_id (map c_id (charges st1)),
                                   c_folio = folio_id,
                                   c_sector = o_sector order,
                                   c_description = ''POS Order #'' @ str_nat (o_id order) @ '' ('' @
                                                   get_sector_display (o_sector order) @ '')'',
                                   c_quantity = 1,
                                   c_unit_price = o_total_amount order,
                                   c_amount_before_tax = o_total_before_tax order,
                                   c_tax_amount = o_total_tax order,
                                   c_amount_after_tax = o_total_amount order,
                                   c_posted_by = u_id u,
                                   c_posted_at = now,
                                   c_pos_order_id = Some (o_id order),
                                   c_room_night_date = None\<rparr>]\<rparr>
                          else st1);
               completed = (\<lambda>od. od\<lparr>o_completed_at := Some now\<rparr>)
           in (Inr (completed order),
               st2\<lparr>orders := save_pk o_id (o_id order) completed (orders st2)\<rparr>)))"

section \<open>Sales dashboard (reports/views.py)\<close>

definition sales_queryset ::
  "user \<Rightarrow> date option \<Rightarrow> date option \<Rightarrow> string option \<Rightarrow> db \<Rightarrow> folio_charge list \<times> pos_order list" where
  "sales_queryset u from_date to_date sector st =
     (let q_charges = charges st;
          q_orders = filter (\<lambda>od. o_completed_at od \<noteq> None) (orders st);
          (q_charges, q_orders) =
            (case from_date of
               None \<Rightarrow> (q_charges, q_orders)
             | Some d \<Rightarrow>
                 (filter (\<lambda>c. date_le d (fst (c_posted_at c))) q_charges,
                  filter (\<lambda>od. case o_completed_at od of None \<Rightarrow> False | Some t \<Rightarrow> date_le d (fst t)) q_orders));
          (q_charges, q_orders) =
            (case to_date of
               None \<Rightarrow> (q_charges, q_orders)
             | Some d \<Rightarrow>
                 (filter (\<lambda>c. date_le (fst (c_posted_at c)) d) q_charges,
                  filter (\<lambda>od. case o_completed_at od of None \<Rightarrow> False | Some t \<Rightarrow> date_le (fst t) d) q_orders));
          (q_charges, q_orders) =
            (case sector of
               None \<Rightarrow> (q_charges, q_orders)
             | Some s \<Rightarrow>
                 if s \<noteq> [] then (filter (\<lambda>c. c_sector c = s) q_charges, filter (\<lambda>od. o_sector od = s) q_orders)
                 else (q_charges, q_orders))
      in case department u of
           None \<Rightarrow> (q_charges, q_orders)
         | Some sec \<Rightarrow>
             if \<not> is_manager u
             then (filter (\<lambda>c. c_sector c = sec) q_charges, filter (\<lambda>od. o_sector od = sec) q_orders)
             else (q_charges, q_orders))"

record dashboard_data =
  total_sales :: decimal
  sales_today :: decimal
  sales_this_month :: decimal
  total_expenses :: decimal
  total_salaries :: decimal
  expenses_this_month :: decimal
  salaries_this_month :: decimal
  net_profit :: decimal
  net_profit_this_month :: decimal
  sales_per_sector :: "(string \<times> string \<times> decimal) list"

text \<open>The loop that builds \<^verbatim>\<open>sectors_data\<close>.\<close>

fun sectors_loop :: "user \<Rightarrow> db \<Rightarrow> (string \<times> string) list \<Rightarrow> (string \<times> string \<times> decimal) list" where
  "sectors_loop u st [] = []"
| "sectors_loop u st ((code, label) # rest) =
     (if \<not> is_manager u \<and> department u \<noteq> None \<and> department u \<noteq> Some code
      then sectors_loop u st rest
      else
        (let c = sum_list (map c_amount_after_tax (filter (\<lambda>c. c_sector c = code) (charges st)));
             od = sum_list (map o_total_amount (filter (\<lambda>od. o_sector od = code) (orders st)))
         in (code, label, c + od) # sectors_loop u st rest))"

definition dashboard :: "user \<Rightarrow> datetime \<Rightarrow> db \<Rightarrow> http_error + dashboard_data" where
  "dashboard u now st =
     (if \<not> has_perm_code u ''view_reports'' \<and> \<not> is_superuser u then Inl Http403
      else
        (let today = fst now;
             month_start = replace_day1 today;
             (q_charges, q_orders) = sales_queryset u None None None st;
             q_charges_today = filter (\<lambda>c. fst (c_posted_at c) = today) (charges st);
             q_orders_today = filter (\<lambda>od. case o_completed_at od of None \<Rightarrow> False | Some t \<Rightarrow> fst t = today)
                                (orders st);
             (q_charges_today, q_orders_today) =
               (case department u of
                  None \<Rightarrow> (q_charges_today, q_orders_today)
                | Some sec \<Rightarrow>
                    if \<not> is_manager u
                    then (filter (\<lambda>c. c_sector c = sec) q_charges_today,
                          filter (\<lambda>od. o_sector od = sec) q_orders_today)
                    else (q_charges_today, q_orders_today));
             total_sales = sum_list (map c_amount_after_tax q_charges) + sum_list (map o_total_amount q_orders);
             sales_today = sum_list (map c_amount_after_tax q_charges_today) +
                           sum_list (map o_total_amount q_orders_today);
             sales_this_month =
               sum_list (map c_amount_after_tax
                  (filter (\<lambda>c. date_le month_start (fst (c_posted_at c))) (charges st))) +
               sum_list (map o_total_amount
                  (filter (\<lambda>od. case o_completed_at od of None \<Rightarrow> False | Some t \<Rightarrow> date_le month_start (fst t))
                     (orders st)));
             total_expenses = sum_list (map e_amount (expenses st));
             total_salaries = sum_list (map s_amount (salaries st));
             expenses_this_month =
               sum_list (map e_amount (filter (\<lambda>e. date_le month_start (fst (e_created_at e))) (expenses st)));
             salaries_this_month =
               sum_list (map s_amount (filter (\<lambda>s. date_le month_start (s_month s)) (salaries st)));
             net_profit = total_sales - total_expenses - total_salaries;
             net_profit_month = sales_this_month - expenses_this_month - salaries_this_month;
             sectors_data = sectors_loop u st
               [(''rooms'', ''Rooms''), (''restaurant'', ''Restaurant''), (''bar'', ''Bar''),
                (''housekeeping'', ''Housekeeping''), (''activities'', ''Activities'')]
         in Inr \<lparr>total_sales = total_sales,
                 sales_today = sales_today,
                 sales_this_month = sales_this_month,
                 total_expenses = total_expenses,
                 total_salaries = total_salaries,
                 expenses_this_month = expenses_this_month,
                 salaries_this_month = salaries_this_month,
                 net_profit = net_profit,
                 net_profit_this_month = net_profit_month,
                 sales_per_sector = sectors_data\<rparr>))"

section \<open>Scenarios\<close>

text \<open>
  The users, the tax schedule and the menu of the seed command
  (\<^verbatim>\<open>seed_kalongo.py\<close>), and the states of the specification's
  scenarios.  A supervisor of the restaurant may read the reports.
\<close>

definition receptionist :: user where
  "receptionist =
     \<lparr>u_id = 2, is_superuser = False, is_manager = False,
      role = Some [''create_booking'', ''view_bookings'', ''check_out_booking'', ''view_folio'',
                   ''post_charge'', ''post_payment'', ''view_guests'', ''manage_rooms''],
      department = Some ''front_office''\<rparr>"

definition waiter :: user where
  "waiter =
     \<lparr>u_id = 3, is_superuser = False, is_manager = False,
      role = Some [''create_pos_order'', ''view_pos_orders'', ''update_pos_order''],
      department = Some ''bar''\<rparr>"

definition supervisor :: user where
  "supervisor =
     \<lparr>u_id = 4, is_superuser = False, is_manager = False,
      role = Some [''view_reports'', ''view_pos_orders''],
      department = Some ''restaurant''\<rparr>"

definition VAT :: tax where
  "VAT = \<lparr>t_name = ''VAT'', t_code = ''VAT'', t_percentage = 18, t_tax_type = Exclusive,
          t_sectors = [], t_is_active = True\<rparr>"

definition room101 :: room where
  "room101 = \<lparr>r_id = 1, r_number = ''101'', r_status = Vacant\<rparr>"

definition booking1 :: booking where
  "booking1 = \<lparr>b_id = 1, b_guest = 1, b_room = 1, b_check_in_date = (2025, 3, 14),
               b_check_out_date = (2025, 3, 16), b_status = Pending, b_created_by = 2\<rparr>"

definition folio1 :: folio where
  "folio1 = \<lparr>f_id = 1, f_booking = 1, f_is_primary = True, f_status = FOpen, f_closed_at = None\<rparr>"

definition morning :: datetime where
  "morning = ((2025, 3, 14), 36000)"

definition noon :: datetime where
  "noon = ((2025, 3, 14), 43200)"

definition evening :: datetime where
  "evening = ((2025, 3, 14), 72000)"

definition checkout_time :: datetime where
  "checkout_time = ((2025, 3, 16), 39600)"

text \<open>A pending booking of room 101; nobody has checked in.\<close>

definition db_booked :: db where
  "db_booked =
     \<lparr>rooms = [room101], bookings = [booking1], folios = [], charges = [], payments = [],
      receipts = [], taxes = [VAT], expenses = [], salaries = [],
      menu_items = [\<lparr>mi_id = 1, mi_name = ''Soda'', mi_price = 2000\<rparr>,
                    \<lparr>mi_id = 2, mi_name = ''Beer'', mi_price = 4000\<rparr>],
      orders = [], order_items = []\<rparr>"

text \<open>After check-in.\<close>

definition db_checked_in :: db where
  "db_checked_in =
     db_booked\<lparr>rooms := [room101\<lparr>r_status := Occupied\<rparr>],
               bookings := [booking1\<lparr>b_status := CheckedIn\<rparr>],
               folios := [folio1]\<rparr>"

text \<open>Scenario A: a charge of quantity 2 at 50,000 in the restaurant.\<close>

definition lunch_post :: charge_post where
  "lunch_post = \<lparr>cp_folio = 1, cp_sector = ''restaurant'', cp_description = ''Lunch'',
                 cp_quantity = Some 2, cp_unit_price = Some 50000, cp_room_night_date = None\<rparr>"

definition lunch_charge :: folio_charge where
  "lunch_charge =
     \<lparr>c_id = 1, c_folio = 1, c_sector = ''restaurant'', c_description = ''Lunch'',
      c_quantity = 2, c_unit_price = 50000, c_amount_before_tax = 100000,
      c_tax_amount = 18000, c_amount_after_tax = 118000, c_posted_by = 2,
      c_posted_at = morning, c_pos_order_id = None, c_room_night_date = None\<rparr>"

definition db_charged :: db where
  "db_charged = db_checked_in\<lparr>charges := [lunch_charge]\<rparr>"

text \<open>Scenario C: a payment of 50,000 in cash.\<close>

definition cash_post :: payment_post where
  "cash_post = \<lparr>pp_folio = 1, pp_amount = Some 50000, pp_method = Cash, pp_reference = None,
                pp_issue_receipt = None\<rparr>"

definition cash_payment :: folio_payment where
  "cash_payment =
     \<lparr>p_id = 1, p_folio = 1, p_amount = 50000, p_method = Cash, p_reference = [],
      p_confirmed_by = 2, p_confirmed_at = noon, p_receipt_issued = True\<rparr>"

definition cash_receipt :: receipt where
  "cash_receipt =
     \<lparr>rc_id = 1, rc_folio_payment = Some 1, rc_receipt_number = ''RCP-1-20250314'',
      rc_amount = 50000, rc_issued_at = noon, rc_issued_by = 2\<rparr>"

definition db_paid :: db where
  "db_paid = db_charged\<lparr>payments := [cash_payment], receipts := [cash_receipt]\<rparr>"

text \<open>After check-out.\<close>

definition db_checked_out :: db where
  "db_checked_out =
     db_paid\<lparr>rooms := [room101],
             bookings := [booking1\<lparr>b_status := CheckedOut\<rparr>],
             folios := [folio1\<lparr>f_status := FClosed, f_closed_at := Some checkout_time\<rparr>]\<rparr>"

text \<open>Scenario D: two beers and a soda at the bar, posted to the room.\<close>

definition bar_order :: order_post where
  "bar_order =
     \<lparr>op_sector = ''bar'', op_payment_intent = Some PostToRoom, op_folio_id = Some 1,
      op_table_or_room = Some ''101'',
      op_items = [\<lparr>it_menu_item_id = 2, it_quantity = Some 2, it_notes = None\<rparr>,
                  \<lparr>it_menu_item_id = 1, it_quantity = None, it_notes = None\<rparr>]\<rparr>"

definition bar_charge :: folio_charge where
  "bar_charge =
     \<lparr>c_id = 2, c_folio = 1, c_sector = ''bar'', c_description = ''POS Order #1 (Bar)'',
      c_quantity = 1, c_unit_price = 11800, c_amount_before_tax = 10000,
      c_tax_amount = 1800, c_amount_after_tax = 11800, c_posted_by = 3,
      c_posted_at = evening, c_pos_order_id = Some 1, c_room_night_date = None\<rparr>"

definition bar_order_row :: pos_order where
  "bar_order_row =
     \<lparr>o_id = 1, o_sector = ''bar'', o_status = New, o_payment_intent = PostToRoom,
      o_folio = Some 1, o_table_or_room = ''101'', o_created_by = 3,
      o_completed_at = Some evening, o_total_before_tax = 10000, o_total_tax = 1800,
      o_total_amount = 11800\<rparr>"

definition bar_items :: "order_item list" where
  "bar_items =
     [\<lparr>oi_id = 1, oi_order = 1, oi_menu_item = 2, oi_quantity = 2, oi_unit_price = 4000,
       oi_line_total = 8000, oi_notes = []\<rparr>,
      \<lparr>oi_id = 2, oi_order = 1, oi_menu_item = 1, oi_quantity = 1, oi_unit_price = 2000,
       oi_line_total = 2000, oi_notes = []\<rparr>]"

definition db_bar :: db where
  "db_bar = db_paid\<lparr>charges := [lunch_charge, bar_charge], orders := [bar_order_row],
                    order_items := bar_items\<rparr>"

text \<open>Later on the day of the check-out.\<close>

definition late :: datetime where
  "late = ((2025, 3, 16), 50000)"

section \<open>Lemmas about the tables\<close>

lemma fold_max_init: "(a::nat) \<le> fold max ids a"
proof (induction ids arbitrary: a)
  case Nil
  show ?case by simp
next
  case (Cons x xs)
  have "a \<le> max x a" by simp
  also have "max x a \<le> fold max xs (max x a)" by (rule Cons.IH)
  finally show ?case by simp
qed

lemma fold_max_member: "x \<in> set ids \<Longrightarrow> (x::nat) \<le> fold max ids a"
proof (induction ids arbitrary: a)
  case Nil
  then show ?case by simp
next
  case (Cons y ys)
  show ?case
  proof (cases "x = y")
    case True
    have "y \<le> max y a" by simp
    also have "max y a \<le> fold max ys (max y a)" by (rule fold_max_init)
    finally show ?thesis using True by simp
  next
    case False
    with Cons.prems have "x \<in> set ys" by simp
    then show ?thesis using Cons.IH by simp
  qed
qed

lemma next_id_fresh: "next_id ids \<notin> set ids"
proof
  assume "next_id ids \<in> set ids"
  then have "next_id ids \<le> fold max ids 0" by (rule fold_max_member)
  then show False by (simp add: next_id_def)
qed

lemma get_pk_key: "get_pk key pk rows = Some x \<Longrightarrow> key x = pk"
  by (induction rows) (auto simp: get_pk_def split: if_splits)

lemma get_pk_member: "get_pk key pk rows = Some x \<Longrightarrow> x \<in> set rows"
  by (induction rows) (auto simp: get_pk_def split: if_splits)

lemma get_pk_save_pk:
  assumes "\<And>x. key (upd x) = key x"
  shows "get_pk key pk (save_pk key pk' upd rows) =
         map_option (\<lambda>x. if key x = pk' then upd x else x) (get_pk key pk rows)"
  using assms by (induction rows) (auto simp: get_pk_def save_pk_def)

lemma filter_save_pk:
  assumes "\<And>x. P (upd x) = P x"
  shows "filter P (save_pk key pk upd rows) = save_pk key pk upd (filter P rows)"
  using assms by (induction rows) (auto simp: save_pk_def)

lemma rev_save_pk: "rev (save_pk key pk upd rows) = save_pk key pk upd (rev rows)"
  by (simp add: save_pk_def rev_map)



lemma Booking_folio_save:
  assumes f: "Booking_folio st booking = Some folio"
    and s: "folios st' = save_pk f_id (f_id folio) upd (folios st)"
    and b: "\<And>f. f_booking (upd f) = f_booking f"
    and p: "\<And>f. f_is_primary (upd f) = f_is_primary f"
  shows "Booking_folio st' booking = Some (upd folio)"
proof -
  let ?P = "\<lambda>f. f_booking f = b_id booking \<and> f_is_primary f"
  from f obtain rest where r: "rev (filter ?P (folios st)) = folio # rest"
    by (auto simp: Booking_folio_def split: list.splits)
  have "rev (filter ?P (folios st')) = save_pk f_id (f_id folio) upd (rev (filter ?P (folios st)))"
    by (simp add: s b p filter_save_pk rev_save_pk)
  also have "\<dots> = upd folio # save_pk f_id (f_id folio) upd rest"
    by (simp add: r save_pk_def)
  finally show ?thesis by (simp add: Booking_folio_def)
qed

lemma Booking_folio_None:
  "Booking_folio st booking = None \<longleftrightarrow>
     (\<forall>f \<in> set (folios st). f_booking f = b_id booking \<longrightarrow> \<not> f_is_primary f)"
proof -
  have "Booking_folio st booking = None \<longleftrightarrow>
        filter (\<lambda>f. f_booking f = b_id booking \<and> f_is_primary f) (folios st) = []"
    by (simp add: Booking_folio_def split: list.splits)
  then show ?thesis by (auto simp: filter_empty_conv)
qed


section \<open>Lemmas about the tax loops\<close>

lemma apply_taxes_loop_sum:
  "apply_taxes_loop ts a s acc =
     acc + sum_list (map (\<lambda>t. a * (t_percentage t / 100))
             (filter (\<lambda>t. (t_sectors t = [] \<or> s \<in> set (t_sectors t)) \<and> t_tax_type t = Exclusive) ts))"
  by (induction ts arbitrary: acc) auto

lemma pos_apply_taxes_loop_sum:
  "pos_apply_taxes_loop ts a s acc =
     acc + sum_list (map (\<lambda>t. a * (t_percentage t / 100))
             (filter (\<lambda>t. (t_sectors t = [] \<or> s \<in> set (t_sectors t)) \<and> t_tax_type t = Exclusive) ts))"
  by (induction ts arbitrary: acc) auto

lemma create_tax_loop_sum:
  "create_tax_loop ts a s acc =
     acc + sum_list (map (\<lambda>t. a * (t_percentage t / 100))
             (filter (\<lambda>t. (t_sectors t = [] \<or> s \<in> set (t_sectors t)) \<and> t_tax_type t = Exclusive) ts))"
  by (induction ts arbitrary: acc) auto

lemma applicable_filter:
  "filter (\<lambda>t. (t_sectors t = [] \<or> s \<in> set (t_sectors t)) \<and> t_tax_type t = Exclusive) (filter t_is_active ts) =
   filter (\<lambda>t. t_is_active t \<and> (t_sectors t = [] \<or> s \<in> set (t_sectors t)) \<and> t_tax_type t = Exclusive) ts"
  by (induction ts) auto

section \<open>The scenarios, step by step\<close>

lemmas orm_defs = get_pk_def save_pk_def next_id_def has_perm_code_def has_permission_def Let_def

lemmas scenario_defs = receptionist_def waiter_def supervisor_def VAT_def room101_def booking1_def
  folio1_def morning_def noon_def evening_def checkout_time_def late_def db_booked_def db_checked_in_def db_bar_def
  lunch_post_def lunch_charge_def db_charged_def cash_post_def cash_payment_def cash_receipt_def
  db_paid_def db_checked_out_def bar_order_def bar_charge_def bar_order_row_def bar_items_def

lemma str_nat_1: "str_nat (Suc 0) = ''1''"
  by code_simp

lemma str_nat_2: "str_nat (Suc (Suc 0)) = ''2''"
  by code_simp

lemma strftime_14: "strftime_Ymd (2025, 3, 14) = ''20250314''"
  by code_simp

lemma strftime_16: "strftime_Ymd (2025, 3, 16) = ''20250316''"
  by code_simp

lemma check_in_booked: "check_in receptionist 1 db_booked = (Inr folio1, db_checked_in)"
  by (simp add: check_in_def orm_defs scenario_defs)

lemma post_charge_lunch: "post_charge receptionist lunch_post morning db_checked_in = (Inr lunch_charge, db_charged)"
  by (simp add: post_charge_def can_post_charges_def apply_taxes_def SECTOR_CHOICES_def orm_defs scenario_defs)

lemma post_payment_cash: "post_payment receptionist cash_post noon db_charged = (Inr cash_payment, db_paid)"
  by (simp add: post_payment_def issue_receipt_def receipt_number_def receipt_clash_def
        str_nat_1 strftime_14 orm_defs scenario_defs)

lemma check_out_paid:
  "check_out receptionist 1 checkout_time db_paid =
     (Inr (folio1\<lparr>f_status := FClosed, f_closed_at := Some checkout_time\<rparr>,
           \<lparr>total_charges = 118000, total_payments = 50000, balance = 68000\<rparr>), db_checked_out)"
  by (simp add: check_out_def Booking_folio_def Folio_total_charges_def Folio_total_payments_def
        Folio_balance_def orm_defs scenario_defs)


lemma serializer_create_bar:
  "OrderCreateSerializer_create waiter bar_order db_paid =
     Some (bar_order_row\<lparr>o_completed_at := None\<rparr>,
           db_paid\<lparr>orders := [bar_order_row\<lparr>o_completed_at := None\<rparr>], order_items := bar_items\<rparr>)"
  by (simp add: OrderCreateSerializer_create_def orm_defs scenario_defs)

section \<open>Lemmas about the views\<close>

lemma serializer_create_result:
  assumes "OrderCreateSerializer_create u data st = Some (order, st1)"
  shows "o_id order = next_id (map o_id (orders st))"
    and "o_sector order = op_sector data"
    and "o_total_tax order =
           create_tax_loop (filter t_is_active (taxes st)) (o_total_before_tax order) (o_sector order) 0"
    and "o_total_amount order = o_total_before_tax order + o_total_tax order"
    and "charges st1 = charges st"
    and "orders st1 = orders st @ [order]"
  using assms
  by (auto simp: OrderCreateSerializer_create_def Let_def split: option.splits prod.splits)

lemma post_charge_closed_folio:
  assumes "get_pk f_id (cp_folio data) (folios st) = Some folio"
    and "f_status folio = FClosed"
    and "has_perm_code u ''post_charge'' \<or> is_superuser u"
    and "cp_sector data \<in> set SECTOR_CHOICES"
  shows "post_charge u data now st = (Inl FolioClosedError, st)"
  using assms by (auto simp: post_charge_def can_post_charges_def)

section \<open>The tax engine\<close>

text \<open>
  C4.  For every tax table, pre-tax amount and sector, \<^verbatim>\<open>apply_taxes\<close> returns as tax
  amount the sum, over the taxes that are active, whose sector list is empty or contains
  the sector, and whose type is exclusive, of the pre-tax amount times percentage/100,
  and as post-tax amount the pre-tax amount plus that tax amount.  Taxes of type
  inclusive contribute nothing: the result is that of the table without them.  With the
  single tax VAT (18 percent, exclusive, all sectors), a pre-tax amount of 100,000 gives
  the tax 18,000 and the post-tax amount 118,000.
\<close>

theorem apply_taxes_sum:
  "apply_taxes tax_table pre sector =
     (sum_list (map (\<lambda>t. pre * (t_percentage t / 100))
        (filter (\<lambda>t. t_is_active t \<and> (t_sectors t = [] \<or> sector \<in> set (t_sectors t)) \<and>
                     t_tax_type t = Exclusive) tax_table)),
      pre + sum_list (map (\<lambda>t. pre * (t_percentage t / 100))
        (filter (\<lambda>t. t_is_active t \<and> (t_sectors t = [] \<or> sector \<in> set (t_sectors t)) \<and>
                     t_tax_type t = Exclusive) tax_table))) \<and>
   apply_taxes (filter (\<lambda>t. t_tax_type t = Exclusive) tax_table) pre sector =
     apply_taxes tax_table pre sector \<and>
   apply_taxes [VAT] 100000 sector = (18000, 118000)"
proof -
  have loop: "apply_taxes_loop (filter t_is_active ts) pre sector 0 =
      sum_list (map (\<lambda>t. pre * (t_percentage t / 100))
        (filter (\<lambda>t. t_is_active t \<and> (t_sectors t = [] \<or> sector \<in> set (t_sectors t)) \<and>
                     t_tax_type t = Exclusive) ts))" for ts
    by (simp add: apply_taxes_loop_sum applicable_filter)
  have general: "apply_taxes ts pre sector =
     (sum_list (map (\<lambda>t. pre * (t_percentage t / 100))
        (filter (\<lambda>t. t_is_active t \<and> (t_sectors t = [] \<or> sector \<in> set (t_sectors t)) \<and>
                     t_tax_type t = Exclusive) ts)),
      pre + sum_list (map (\<lambda>t. pre * (t_percentage t / 100))
        (filter (\<lambda>t. t_is_active t \<and> (t_sectors t = [] \<or> sector \<in> set (t_sectors t)) \<and>
                     t_tax_type t = Exclusive) ts)))" for ts
    by (simp add: apply_taxes_def Let_def loop)
  have same: "filter (\<lambda>t. t_is_active t \<and> (t_sectors t = [] \<or> sector \<in> set (t_sectors t)) \<and>
                     t_tax_type t = Exclusive) (filter (\<lambda>t. t_tax_type t = Exclusive) tax_table) =
              filter (\<lambda>t. t_is_active t \<and> (t_sectors t = [] \<or> sector \<in> set (t_sectors t)) \<and>
                     t_tax_type t = Exclusive) tax_table"
    by (induction tax_table) auto
  have inclusive: "apply_taxes (filter (\<lambda>t. t_tax_type t = Exclusive) tax_table) pre sector =
     apply_taxes tax_table pre sector"
    by (simp only: general same)
  have vat: "apply_taxes [VAT] 100000 sector = (18000, 118000)"
    by (simp add: apply_taxes_def VAT_def)
  show ?thesis using general [of tax_table] inclusive vat by blast
qed

text \<open>
  C10.  For every tax table, pre-tax amount and sector, the tax amount of the hotel
  module's \<^verbatim>\<open>apply_taxes\<close> (used for direct folio charges) equals the tax amount of the POS
  module's \<^verbatim>\<open>_apply_taxes\<close> and the one the loop inside \<^verbatim>\<open>OrderCreateSerializer.create\<close>
  computes.  Hence the totals of every order the serializer creates are those of
  \<^verbatim>\<open>apply_taxes\<close> on the order's pre-tax total and sector, and the tax amount of every
  charge \<^verbatim>\<open>post_charge\<close> creates is that of \<^verbatim>\<open>_apply_taxes\<close> on the charge's pre-tax amount
  and sector.
\<close>

theorem tax_sources_agree:
  "pos_apply_taxes tax_table amount sector = fst (apply_taxes tax_table amount sector) \<and>
   create_tax_loop (filter t_is_active tax_table) amount sector 0 =
     fst (apply_taxes tax_table amount sector) \<and>
   (OrderCreateSerializer_create u data st = Some (order, st1) \<longrightarrow>
      o_total_tax order = fst (apply_taxes (taxes st) (o_total_before_tax order) (o_sector order)) \<and>
      o_total_amount order = snd (apply_taxes (taxes st) (o_total_before_tax order) (o_sector order))) \<and>
   (post_charge u' cdata now st' = (Inr charge, st'') \<longrightarrow>
      c_tax_amount charge =
        pos_apply_taxes (taxes st') (c_amount_before_tax charge) (c_sector charge))"
proof -
  have pos: "pos_apply_taxes ts a s = fst (apply_taxes ts a s)" for ts a s
    by (simp add: pos_apply_taxes_def apply_taxes_def Let_def pos_apply_taxes_loop_sum
          apply_taxes_loop_sum)
  have ser: "create_tax_loop (filter t_is_active ts) a s 0 = fst (apply_taxes ts a s)" for ts a s
    by (simp add: apply_taxes_def Let_def create_tax_loop_sum apply_taxes_loop_sum)
  have ord: "o_total_tax order = fst (apply_taxes (taxes st) (o_total_before_tax order) (o_sector order)) \<and>
      o_total_amount order = snd (apply_taxes (taxes st) (o_total_before_tax order) (o_sector order))"
    if c: "OrderCreateSerializer_create u data st = Some (order, st1)"
  proof -
    have "o_total_tax order = fst (apply_taxes (taxes st) (o_total_before_tax order) (o_sector order))"
      using serializer_create_result(3) [OF c] by (simp only: ser)
    moreover have "snd (apply_taxes (taxes st) (o_total_before_tax order) (o_sector order)) =
        o_total_before_tax order + fst (apply_taxes (taxes st) (o_total_before_tax order) (o_sector order))"
      by (simp add: apply_taxes_def Let_def)
    ultimately show ?thesis using serializer_create_result(4) [OF c] by simp
  qed
  have chg: "c_tax_amount charge =
        pos_apply_taxes (taxes st') (c_amount_before_tax charge) (c_sector charge)"
    if "post_charge u' cdata now st' = (Inr charge, st'')"
    using that
    by (auto simp: pos post_charge_def Let_def split: option.splits if_splits prod.splits)
  show ?thesis using pos ser ord chg by blast
qed

text \<open>
  Witness of C10: the bar order of scenario D (10,000 before tax, tax 1,800, total
  11,800) and the restaurant charge of scenario A (100,000 before tax, tax 18,000).
\<close>

theorem tax_sources_agree_witness:
  "OrderCreateSerializer_create waiter bar_order db_paid =
     Some (bar_order_row\<lparr>o_completed_at := None\<rparr>,
           db_paid\<lparr>orders := [bar_order_row\<lparr>o_completed_at := None\<rparr>], order_items := bar_items\<rparr>) \<and>
   o_total_tax bar_order_row = fst (apply_taxes (taxes db_paid) 10000 ''bar'') \<and>
   o_total_amount bar_order_row = snd (apply_taxes (taxes db_paid) 10000 ''bar'') \<and>
   post_charge receptionist lunch_post morning db_checked_in = (Inr lunch_charge, db_charged) \<and>
   c_tax_amount lunch_charge = pos_apply_taxes (taxes db_checked_in) 100000 ''restaurant''"
proof -
  let ?o = "bar_order_row\<lparr>o_completed_at := None\<rparr>"
  let ?st1 = "db_paid\<lparr>orders := [?o], order_items := bar_items\<rparr>"
  have vo: "o_total_before_tax ?o = 10000 \<and> o_sector ?o = ''bar'' \<and>
            o_total_tax ?o = o_total_tax bar_order_row \<and> o_total_amount ?o = o_total_amount bar_order_row"
    by (simp add: bar_order_row_def)
  have vc: "c_amount_before_tax lunch_charge = 100000 \<and> c_sector lunch_charge = ''restaurant''"
    by (simp add: lunch_charge_def)
  from tax_sources_agree [of _ _ _ waiter bar_order db_paid ?o ?st1
                             receptionist lunch_post morning db_checked_in lunch_charge db_charged]
  show ?thesis
    using serializer_create_bar post_charge_lunch vo vc by simp
qed

section \<open>Check-in and check-out\<close>

text \<open>
  C2.  Let the actor hold \<^verbatim>\<open>create_booking\<close> (or be a superuser), let the booking
  exist and its room exist.  Then check-in succeeds exactly when the booking's status
  is pending or confirmed.  On success it creates one new folio (with a key no folio
  had) that is open, primary and bound to the booking, the room's status becomes
  occupied and the booking's status becomes \<^verbatim>\<open>checked_in\<close>; a second check-in on the same
  booking, by any authorized actor, fails with \<^verbatim>\<open>InvalidStateError\<close> (status 400,
  "Booking not in confirmable state") and returns the database unchanged.  From any
  other status the first check-in fails in the same way and changes nothing.
\<close>

theorem check_in_transition:
  assumes auth: "has_perm_code u ''create_booking'' \<or> is_superuser u"
    and auth2: "has_perm_code u2 ''create_booking'' \<or> is_superuser u2"
    and bk: "get_pk b_id pk (bookings st) = Some booking"
    and rm: "get_pk r_id (b_room booking) (rooms st) = Some room"
  shows "((\<exists>folio st'. check_in u pk st = (Inr folio, st')) \<longleftrightarrow>
            (b_status booking = Pending \<or> b_status booking = Confirmed)) \<and>
         (b_status booking = Pending \<or> b_status booking = Confirmed \<longrightarrow>
            (\<exists>folio st'. check_in u pk st = (Inr folio, st') \<and>
               folio = \<lparr>f_id = next_id (map f_id (folios st)), f_booking = pk, f_is_primary = True,
                        f_status = FOpen, f_closed_at = None\<rparr> \<and>
               f_id folio \<notin> set (map f_id (folios st)) \<and>
               folios st' = folios st @ [folio] \<and>
               map_option r_status (get_pk r_id (b_room booking) (rooms st')) = Some Occupied \<and>
               map_option b_status (get_pk b_id pk (bookings st')) = Some CheckedIn \<and>
               check_in u2 pk st' = (Inl InvalidStateError, st'))) \<and>
         (b_status booking \<noteq> Pending \<and> b_status booking \<noteq> Confirmed \<longrightarrow>
            check_in u pk st = (Inl InvalidStateError, st))"
proof -
  have bid: "b_id booking = pk" using bk by (rule get_pk_key)
  have rid: "r_id room = b_room booking" using rm by (rule get_pk_key)
  define folio where "folio = \<lparr>f_id = next_id (map f_id (folios st)), f_booking = pk, f_is_primary = True,
                        f_status = FOpen, f_closed_at = None\<rparr>"
  define st' where "st' = st\<lparr>folios := folios st @ [folio],
       rooms := save_pk r_id (b_room booking) (\<lambda>r. r\<lparr>r_status := Occupied\<rparr>) (rooms st),
       bookings := save_pk b_id pk (\<lambda>b. b\<lparr>b_status := CheckedIn\<rparr>) (bookings st)\<rparr>"
  have fail: "check_in u pk st = (Inl InvalidStateError, st)"
    if "b_status booking \<noteq> Pending \<and> b_status booking \<noteq> Confirmed"
    using that auth bk by (auto simp add: check_in_def)
  have ok: "check_in u pk st = (Inr folio, st')"
    if "b_status booking = Pending \<or> b_status booking = Confirmed"
    using that auth bk rm bid rid by (auto simp add: check_in_def Let_def folio_def st'_def)
  have bk': "get_pk b_id pk (bookings st') = Some (booking\<lparr>b_status := CheckedIn\<rparr>)"
    by (simp add: st'_def get_pk_save_pk bk bid)
  have rm': "get_pk r_id (b_room booking) (rooms st') = Some (room\<lparr>r_status := Occupied\<rparr>)"
    by (simp add: st'_def get_pk_save_pk rm rid)
  have second: "check_in u2 pk st' = (Inl InvalidStateError, st')"
    using auth2 bk' by (auto simp add: check_in_def)
  have fresh: "f_id folio \<notin> set (map f_id (folios st))"
    by (simp only: folio_def folio.simps next_id_fresh not_False_eq_True)
  have iff: "(\<exists>folio st'. check_in u pk st = (Inr folio, st')) \<longleftrightarrow>
            (b_status booking = Pending \<or> b_status booking = Confirmed)"
  proof
    assume ex: "\<exists>folio st'. check_in u pk st = (Inr folio, st')"
    show "b_status booking = Pending \<or> b_status booking = Confirmed"
    proof (rule ccontr)
      assume "\<not> (b_status booking = Pending \<or> b_status booking = Confirmed)"
      then have "check_in u pk st = (Inl InvalidStateError, st)" using fail by simp
      with ex show False by simp
    qed
  next
    assume "b_status booking = Pending \<or> b_status booking = Confirmed"
    then show "\<exists>folio st'. check_in u pk st = (Inr folio, st')" using ok by blast
  qed
  have succ: "\<exists>folio st'. check_in u pk st = (Inr folio, st') \<and>
               folio = \<lparr>f_id = next_id (map f_id (folios st)), f_booking = pk, f_is_primary = True,
                        f_status = FOpen, f_closed_at = None\<rparr> \<and>
               f_id folio \<notin> set (map f_id (folios st)) \<and>
               folios st' = folios st @ [folio] \<and>
               map_option r_status (get_pk r_id (b_room booking) (rooms st')) = Some Occupied \<and>
               map_option b_status (get_pk b_id pk (bookings st')) = Some CheckedIn \<and>
               check_in u2 pk st' = (Inl InvalidStateError, st')"
    if s: "b_status booking = Pending \<or> b_status booking = Confirmed"
  proof (intro exI conjI)
    show "check_in u pk st = (Inr folio, st')" using s by (rule ok)
    show "folio = \<lparr>f_id = next_id (map f_id (folios st)), f_booking = pk, f_is_primary = True,
                        f_status = FOpen, f_closed_at = None\<rparr>" by (rule folio_def)
    show "f_id folio \<notin> set (map f_id (folios st))" by (rule fresh)
    show "folios st' = folios st @ [folio]" by (simp add: st'_def)
    show "map_option r_status (get_pk r_id (b_room booking) (rooms st')) = Some Occupied"
      by (simp add: rm')
    show "map_option b_status (get_pk b_id pk (bookings st')) = Some CheckedIn"
      by (simp add: bk')
    show "check_in u2 pk st' = (Inl InvalidStateError, st')" by (rule second)
  qed
  show ?thesis using iff succ fail by blast
qed

text \<open>
  Witness of C2 (scenario B): the receptionist checks the pending booking 1 in.
\<close>

theorem check_in_transition_witness:
  "has_perm_code receptionist ''create_booking'' \<and>
   get_pk b_id 1 (bookings db_booked) = Some booking1 \<and>
   get_pk r_id (b_room booking1) (rooms db_booked) = Some room101 \<and>
   b_status booking1 = Pending \<and>
   (\<exists>folio st'. check_in receptionist 1 db_booked = (Inr folio, st') \<and>
      folio = \<lparr>f_id = next_id (map f_id (folios db_booked)), f_booking = 1, f_is_primary = True,
               f_status = FOpen, f_closed_at = None\<rparr> \<and>
      f_id folio \<notin> set (map f_id (folios db_booked)) \<and>
      folios st' = folios db_booked @ [folio] \<and>
      map_option r_status (get_pk r_id (b_room booking1) (rooms st')) = Some Occupied \<and>
      map_option b_status (get_pk b_id 1 (bookings st')) = Some CheckedIn \<and>
      check_in receptionist 1 st' = (Inl InvalidStateError, st'))"
proof -
  have a: "has_perm_code receptionist ''create_booking''"
    by (simp add: has_perm_code_def receptionist_def)
  have b: "get_pk b_id 1 (bookings db_booked) = Some booking1"
    by (simp add: get_pk_def db_booked_def booking1_def)
  have r: "get_pk r_id (b_room booking1) (rooms db_booked) = Some room101"
    by (simp add: get_pk_def db_booked_def booking1_def room101_def)
  have p: "b_status booking1 = Pending"
    by (simp add: booking1_def)
  from a have a': "has_perm_code receptionist ''create_booking'' \<or> is_superuser receptionist" ..
  show ?thesis
    using check_in_transition [OF a' a' b r] a b r p by blast
qed

text \<open>
  C6.  Let the actor hold \<^verbatim>\<open>check_out_booking\<close> (or be a superuser), let the booking
  exist and its room exist.  The booking's folio is \<^verbatim>\<open>Booking.folio\<close>, its newest primary
  folio.  Check-out fails with \<^verbatim>\<open>NoFolioError\<close> when there is none and with
  \<^verbatim>\<open>AlreadyClosedError\<close> when that folio is closed, both without changing the database.
  Otherwise it closes the folio with closed-at set to the current time, sets the room to
  vacant and the booking to \<^verbatim>\<open>checked_out\<close> in one step, leaves charges and payments as
  they were, and returns the closed folio with an invoice whose total charges is the sum
  of the post-tax amounts of the folio's charges, whose total payments is the sum of the
  amounts of its payments, and whose balance is their difference, all read from the
  tables after the update.
\<close>

theorem check_out_transition:
  assumes auth: "has_perm_code u ''check_out_booking'' \<or> is_superuser u"
    and bk: "get_pk b_id pk (bookings st) = Some booking"
    and rm: "get_pk r_id (b_room booking) (rooms st) = Some room"
  shows "(Booking_folio st booking = None \<longrightarrow> check_out u pk now st = (Inl NoFolioError, st)) \<and>
         (\<forall>folio. Booking_folio st booking = Some folio \<and> f_status folio = FClosed \<longrightarrow>
            check_out u pk now st = (Inl AlreadyClosedError, st)) \<and>
         (\<forall>folio. Booking_folio st booking = Some folio \<and> f_status folio \<noteq> FClosed \<longrightarrow>
            (\<exists>folio' inv st'. check_out u pk now st = (Inr (folio', inv), st') \<and>
               folio' = folio\<lparr>f_status := FClosed, f_closed_at := Some now\<rparr> \<and>
               Booking_folio st' booking = Some folio' \<and>
               map_option r_status (get_pk r_id (b_room booking) (rooms st')) = Some Vacant \<and>
               map_option b_status (get_pk b_id pk (bookings st')) = Some CheckedOut \<and>
               charges st' = charges st \<and> payments st' = payments st \<and>
               total_charges inv =
                 sum_list (map c_amount_after_tax (filter (\<lambda>c. c_folio c = f_id folio) (charges st'))) \<and>
               total_payments inv =
                 sum_list (map p_amount (filter (\<lambda>p. p_folio p = f_id folio) (payments st'))) \<and>
               balance inv = total_charges inv - total_payments inv))"
proof -
  have bid: "b_id booking = pk" using bk by (rule get_pk_key)
  have rid: "r_id room = b_room booking" using rm by (rule get_pk_key)
  have nofolio: "check_out u pk now st = (Inl NoFolioError, st)"
    if "Booking_folio st booking = None"
    using that auth bk by (auto simp: check_out_def)
  have closed: "check_out u pk now st = (Inl AlreadyClosedError, st)"
    if "Booking_folio st booking = Some folio \<and> f_status folio = FClosed" for folio
    using that auth bk by (auto simp: check_out_def)
  have ok: "\<exists>folio' inv st'. check_out u pk now st = (Inr (folio', inv), st') \<and>
               folio' = folio\<lparr>f_status := FClosed, f_closed_at := Some now\<rparr> \<and>
               Booking_folio st' booking = Some folio' \<and>
               map_option r_status (get_pk r_id (b_room booking) (rooms st')) = Some Vacant \<and>
               map_option b_status (get_pk b_id pk (bookings st')) = Some CheckedOut \<and>
               charges st' = charges st \<and> payments st' = payments st \<and>
               total_charges inv =
                 sum_list (map c_amount_after_tax (filter (\<lambda>c. c_folio c = f_id folio) (charges st'))) \<and>
               total_payments inv =
                 sum_list (map p_amount (filter (\<lambda>p. p_folio p = f_id folio) (payments st'))) \<and>
               balance inv = total_charges inv - total_payments inv"
    if fo: "Booking_folio st booking = Some folio \<and> f_status folio \<noteq> FClosed" for folio
  proof -
    define cl where "cl = (\<lambda>f::folio. f\<lparr>f_status := FClosed, f_closed_at := Some now\<rparr>)"
    define st' where "st' = st\<lparr>folios := save_pk f_id (f_id folio) cl (folios st),
        rooms := save_pk r_id (b_room booking) (\<lambda>r. r\<lparr>r_status := Vacant\<rparr>) (rooms st),
        bookings := save_pk b_id pk (\<lambda>b. b\<lparr>b_status := CheckedOut\<rparr>) (bookings st)\<rparr>"
    define inv where "inv = \<lparr>total_charges = Folio_total_charges st' (cl folio),
        total_payments = Folio_total_payments st' (cl folio),
        balance = Folio_balance st' (cl folio)\<rparr>"
    have run: "check_out u pk now st = (Inr (cl folio, inv), st')"
      using fo auth bk rm bid rid by (auto simp: check_out_def Let_def cl_def st'_def inv_def)
    have fs: "folios st' = save_pk f_id (f_id folio) cl (folios st)" by (simp add: st'_def)
    have bf: "Booking_folio st' booking = Some (cl folio)"
      using fo by (intro Booking_folio_save [OF _ fs]) (simp_all add: cl_def)
    show ?thesis
    proof (intro exI conjI)
      show "check_out u pk now st = (Inr (cl folio, inv), st')" by (rule run)
      show "cl folio = folio\<lparr>f_status := FClosed, f_closed_at := Some now\<rparr>" by (simp add: cl_def)
      show "Booking_folio st' booking = Some (cl folio)" by (rule bf)
      show "map_option r_status (get_pk r_id (b_room booking) (rooms st')) = Some Vacant"
        by (simp add: st'_def get_pk_save_pk rm rid)
      show "map_option b_status (get_pk b_id pk (bookings st')) = Some CheckedOut"
        by (simp add: st'_def get_pk_save_pk bk bid)
      show "charges st' = charges st" by (simp add: st'_def)
      show "payments st' = payments st" by (simp add: st'_def)
      show "total_charges inv =
                 sum_list (map c_amount_after_tax (filter (\<lambda>c. c_folio c = f_id folio) (charges st')))"
        by (simp add: inv_def Folio_total_charges_def cl_def)
      show "total_payments inv =
                 sum_list (map p_amount (filter (\<lambda>p. p_folio p = f_id folio) (payments st')))"
        by (simp add: inv_def Folio_total_payments_def cl_def)
      show "balance inv = total_charges inv - total_payments inv"
        by (simp add: inv_def Folio_balance_def)
    qed
  qed
  show ?thesis using nofolio closed ok by blast
qed

text \<open>
  Witness of C6 (scenario C): folio 1 holds one charge of 118,000 and one payment of
  50,000; the invoice of the check-out is 118,000, 50,000 and 68,000.
\<close>

theorem check_out_transition_witness:
  "has_perm_code receptionist ''check_out_booking'' \<and>
   get_pk b_id 1 (bookings db_paid) = Some (booking1\<lparr>b_status := CheckedIn\<rparr>) \<and>
   get_pk r_id 1 (rooms db_paid) = Some (room101\<lparr>r_status := Occupied\<rparr>) \<and>
   Booking_folio db_paid (booking1\<lparr>b_status := CheckedIn\<rparr>) = Some folio1 \<and>
   f_status folio1 \<noteq> FClosed \<and>
   (\<exists>folio' inv st'. check_out receptionist 1 checkout_time db_paid = (Inr (folio', inv), st') \<and>
      folio' = folio1\<lparr>f_status := FClosed, f_closed_at := Some checkout_time\<rparr> \<and>
      Booking_folio st' (booking1\<lparr>b_status := CheckedIn\<rparr>) = Some folio' \<and>
      map_option r_status (get_pk r_id 1 (rooms st')) = Some Vacant \<and>
      map_option b_status (get_pk b_id 1 (bookings st')) = Some CheckedOut \<and>
      charges st' = charges db_paid \<and> payments st' = payments db_paid \<and>
      total_charges inv = 118000 \<and> total_payments inv = 50000 \<and> balance inv = 68000)"
proof -
  let ?b = "booking1\<lparr>b_status := CheckedIn\<rparr>"
  have a: "has_perm_code receptionist ''check_out_booking''"
    by (simp add: has_perm_code_def receptionist_def)
  have b: "get_pk b_id 1 (bookings db_paid) = Some ?b"
    by (simp add: orm_defs scenario_defs)
  have br: "b_room ?b = 1"
    by (simp add: booking1_def)
  have r: "get_pk r_id (b_room ?b) (rooms db_paid) = Some (room101\<lparr>r_status := Occupied\<rparr>)"
    by (simp add: orm_defs scenario_defs)
  have f: "Booking_folio db_paid ?b = Some folio1"
    by (simp add: Booking_folio_def scenario_defs)
  have o: "f_status folio1 \<noteq> FClosed"
    by (simp add: folio1_def)
  have fid: "f_id folio1 = 1"
    by (simp add: folio1_def)
  have tc: "sum_list (map c_amount_after_tax (filter (\<lambda>c. c_folio c = 1) (charges db_paid))) = 118000"
    by (simp add: scenario_defs)
  have tp: "sum_list (map p_amount (filter (\<lambda>p. p_folio p = 1) (payments db_paid))) = 50000"
    by (simp add: scenario_defs)
  from a have a': "has_perm_code receptionist ''check_out_booking'' \<or> is_superuser receptionist" ..
  from check_out_transition [OF a' b r, of checkout_time] f o
  obtain folio' inv st' where
    run: "check_out receptionist 1 checkout_time db_paid = (Inr (folio', inv), st')"
    and fo: "folio' = folio1\<lparr>f_status := FClosed, f_closed_at := Some checkout_time\<rparr>"
    and bf: "Booking_folio st' ?b = Some folio'"
    and rs: "map_option r_status (get_pk r_id (b_room ?b) (rooms st')) = Some Vacant"
    and bs: "map_option b_status (get_pk b_id 1 (bookings st')) = Some CheckedOut"
    and cs: "charges st' = charges db_paid" and ps: "payments st' = payments db_paid"
    and t1: "total_charges inv =
               sum_list (map c_amount_after_tax (filter (\<lambda>c. c_folio c = f_id folio1) (charges st')))"
    and t2: "total_payments inv =
               sum_list (map p_amount (filter (\<lambda>p. p_folio p = f_id folio1) (payments st')))"
    and t3: "balance inv = total_charges inv - total_payments inv"
    by blast
  have v1: "total_charges inv = 118000" using t1 by (simp only: cs fid tc)
  have v2: "total_payments inv = 50000" using t2 by (simp only: ps fid tp)
  have v3: "balance inv = 68000" using t3 by (simp add: v1 v2)
  from rs have rs': "map_option r_status (get_pk r_id 1 (rooms st')) = Some Vacant"
    by (simp only: br)
  from r have r': "get_pk r_id 1 (rooms db_paid) = Some (room101\<lparr>r_status := Occupied\<rparr>)"
    by (simp only: br)
  show ?thesis
    using a b r' f o run fo bf rs' bs cs ps v1 v2 v3 by blast
qed

section \<open>Payments and receipts\<close>



section \<open>Amounts of a charge\<close>




section \<open>Where the views leave the documented behaviour\<close>

text \<open>
  C1.  \<^verbatim>\<open>post_charge\<close> refuses a closed folio (\<^verbatim>\<open>FolioClosedError\<close>, database
  unchanged), but \<^verbatim>\<open>post_payment\<close> never reads the folio's status: on the folio closed
  by the check-out of scenario C it appends a second payment and a second receipt.
\<close>

theorem post_payment_closed_folio:
  "get_pk f_id (pp_folio cash_post) (folios db_checked_out) =
     Some (folio1\<lparr>f_status := FClosed, f_closed_at := Some checkout_time\<rparr>) \<and>
   post_charge receptionist lunch_post late db_checked_out = (Inl FolioClosedError, db_checked_out) \<and>
   post_payment receptionist cash_post late db_checked_out =
     (Inr (cash_payment\<lparr>p_id := 2, p_confirmed_at := late\<rparr>),
      db_checked_out\<lparr>payments := [cash_payment, cash_payment\<lparr>p_id := 2, p_confirmed_at := late\<rparr>],
                     receipts := [cash_receipt,
                                  \<lparr>rc_id = 2, rc_folio_payment = Some 2,
                                   rc_receipt_number = ''RCP-2-20250316'', rc_amount = 50000,
                                   rc_issued_at = late, rc_issued_by = 2\<rparr>]\<rparr>)"
  by (simp add: post_payment_def post_charge_def can_post_charges_def SECTOR_CHOICES_def
        issue_receipt_def receipt_number_def receipt_clash_def str_nat_2 strftime_16
        orm_defs scenario_defs)

text \<open>
  C3.  \<^verbatim>\<open>OrderListCreate.create\<close> does not read the folio's status either: a POS order
  posted to the closed folio is saved and its aggregate charge is appended to the
  folio.
\<close>

theorem pos_order_closed_folio:
  "get_pk f_id 1 (folios db_checked_out) =
     Some (folio1\<lparr>f_status := FClosed, f_closed_at := Some checkout_time\<rparr>) \<and>
   OrderListCreate_create waiter bar_order late db_checked_out =
     (Inr (bar_order_row\<lparr>o_completed_at := Some late\<rparr>),
      db_checked_out\<lparr>charges := [lunch_charge, bar_charge\<lparr>c_posted_at := late\<rparr>],
                     orders := [bar_order_row\<lparr>o_completed_at := Some late\<rparr>],
                     order_items := bar_items\<rparr>)"
  by (simp add: OrderListCreate_create_def OrderCreateSerializer_create_def get_sector_display_def
        str_nat_1 orm_defs scenario_defs)

text \<open>
  C5.  \<^verbatim>\<open>check_in\<close> looks at the booking's status only, and \<^verbatim>\<open>BookingDetail\<close> lets
  an update write the status: create the booking, check in, set the status back to
  pending, check in again.  The booking then has two open primary folios.
\<close>

theorem second_primary_folio:
  "BookingCreate receptionist
     \<lparr>bc_guest = 1, bc_room = 1, bc_check_in_date = (2025, 3, 14), bc_check_out_date = (2025, 3, 16)\<rparr>
     (db_booked\<lparr>bookings := []\<rparr>) = (Inr booking1, db_booked) \<and>
   check_in receptionist 1 db_booked = (Inr folio1, db_checked_in) \<and>
   BookingDetail_update receptionist 1 \<lparr>bp_room = None, bp_status = Some Pending\<rparr> db_checked_in =
     (Inr booking1, db_checked_in\<lparr>bookings := [booking1]\<rparr>) \<and>
   check_in receptionist 1 (db_checked_in\<lparr>bookings := [booking1]\<rparr>) =
     (Inr (folio1\<lparr>f_id := 2\<rparr>),
      db_checked_in\<lparr>bookings := [booking1\<lparr>b_status := CheckedIn\<rparr>],
                    folios := [folio1, folio1\<lparr>f_id := 2\<rparr>]\<rparr>) \<and>
   filter (\<lambda>f. f_booking f = 1 \<and> f_is_primary f \<and> f_status f = FOpen) [folio1, folio1\<lparr>f_id := 2\<rparr>] =
     [folio1, folio1\<lparr>f_id := 2\<rparr>]"
  by (simp add: BookingCreate_def BookingDetail_update_def check_in_def orm_defs scenario_defs)

text \<open>
  C8.  For a supervisor of the restaurant who is no manager, \<^verbatim>\<open>total_sales\<close>,
  \<^verbatim>\<open>sales_today\<close> and \<^verbatim>\<open>sales_per_sector\<close> are filtered by the department, but
  \<^verbatim>\<open>sales_this_month\<close> (and \<^verbatim>\<open>net_profit_this_month\<close>, computed from it) is not: two
  states that differ in a bar charge and a bar order only give different dashboards.
\<close>

theorem dashboard_month_sales_unfiltered:
  "department supervisor = Some ''restaurant'' \<and> \<not> is_manager supervisor \<and>
   db_bar = db_paid\<lparr>charges := charges db_paid @ [bar_charge], orders := [bar_order_row],
                    order_items := bar_items\<rparr> \<and>
   c_sector bar_charge = ''bar'' \<and> o_sector bar_order_row = ''bar'' \<and>
   dashboard supervisor evening db_paid =
     Inr \<lparr>total_sales = 118000, sales_today = 118000, sales_this_month = 118000,
          total_expenses = 0, total_salaries = 0, expenses_this_month = 0,
          salaries_this_month = 0, net_profit = 118000, net_profit_this_month = 118000,
          sales_per_sector = [(''restaurant'', ''Restaurant'', 118000)]\<rparr> \<and>
   dashboard supervisor evening db_bar =
     Inr \<lparr>total_sales = 118000, sales_today = 118000, sales_this_month = 141600,
          total_expenses = 0, total_salaries = 0, expenses_this_month = 0,
          salaries_this_month = 0, net_profit = 118000, net_profit_this_month = 141600,
          sales_per_sector = [(''restaurant'', ''Restaurant'', 118000)]\<rparr>"
  by (simp add: dashboard_def sales_queryset_def orm_defs scenario_defs)


end
